theory Spec2Isabelle
  imports Complex_Main "HOL-Library.Word" "HOL-Library.Char_ord" "HOL-Library.List_Lexorder"
    "HOL-Library.Multiset"
begin

unbundle bit_operations_syntax

section \<open>The airline demand dashboard (app.py)\<close>

text \<open>
  The development embeds the computational core of \<^verbatim>\<open>app.py\<close>: the two trend
  simulators, the route join, the route ranking and the live-flight gateway.
  Python floats are modelled as reals (their rounding is not), Python integers as
  \<open>int\<close>, strings as lists of characters below 256, exceptions as the left summand
  of a sum type. What the program takes from its surroundings is
  an explicit argument of the model:
  \<^item> \<open>h\<close>, the builtin \<^verbatim>\<open>hash\<close> of the running interpreter;
  \<^item> \<open>g\<close>, the stream of standard normal variates that a fresh
    \<^verbatim>\<open>np.random.default_rng\<close> generator draws from a given seeding;
  \<^item> \<open>e\<close>, the operating system entropy a generator reads when no seed is given;
  \<^item> \<open>today\<close>, the value of \<^verbatim>\<open>pd.Timestamp.today()\<close> at the call.
\<close>

subsection \<open>Errors\<close>

datatype py_error = ValueError string | TypeError string | AttributeError string

subsection \<open>Timestamps and the month-end date range\<close>

record timestamp =
  ts_year :: int
  ts_month :: int
  ts_day :: int
  ts_time :: nat

definition is_leap_year :: "int \<Rightarrow> bool" where
  "is_leap_year y = (if y mod 100 = 0 then y mod 400 = 0 else y mod 4 = 0)"

definition days_in_month :: "int \<Rightarrow> int \<Rightarrow> int" where
  "days_in_month y m =
     (if m = 2 then (if is_leap_year y then 29 else 28)
      else if m = 4 \<or> m = 6 \<or> m = 9 \<or> m = 11 then 30 else 31)"


text \<open>Months are counted from year 0: month \<open>m\<close> of year \<open>y\<close> has index \<open>12 y + m - 1\<close>.\<close>

definition month_index :: "timestamp \<Rightarrow> int" where
  "month_index d = 12 * ts_year d + (ts_month d - 1)"

definition month_end_at :: "int \<Rightarrow> nat \<Rightarrow> timestamp" where
  "month_end_at k tod =
     \<lparr>ts_year = k div 12, ts_month = k mod 12 + 1,
      ts_day = days_in_month (k div 12) (k mod 12 + 1), ts_time = tod\<rparr>"

definition is_on_offset :: "timestamp \<Rightarrow> bool" where
  "is_on_offset d = (ts_day d = days_in_month (ts_year d) (ts_month d))"

text \<open>
  \<^verbatim>\<open>MonthEnd.rollback\<close>: a timestamp that is not on a month end moves back to the
  end of the month before; the time of day is kept.
\<close>

definition rollback :: "timestamp \<Rightarrow> timestamp" where
  "rollback d = (if is_on_offset d then d else month_end_at (month_index d - 1) (ts_time d))"

text \<open>
  \<^verbatim>\<open>pd.date_range(end=d, periods=n, freq="M")\<close>: the end is rolled back onto the
  offset, the start is \<open>n - 1\<close> month ends before it, and the range steps forward
  one month end at a time.
\<close>

definition date_range :: "timestamp \<Rightarrow> nat \<Rightarrow> timestamp list" where
  "date_range d periods =
     (let e = rollback d; start = month_index e - (int periods - 1)
      in map (\<lambda>i. month_end_at (start + int i) (ts_time e)) [0..<periods])"


subsection \<open>The random generator\<close>

text \<open>
  \<^verbatim>\<open>np.random.default_rng(seed)\<close> seeds a new generator from the integer seed, or
  from fresh entropy when the seed is \<^verbatim>\<open>None\<close>; a negative seed is refused.
\<close>

datatype seeding = FromSeed nat | FromEntropy nat

definition default_rng :: "nat \<Rightarrow> int option \<Rightarrow> py_error + seeding" where
  "default_rng e seed =
     (case seed of
        None \<Rightarrow> Inr (FromEntropy e)
      | Some s \<Rightarrow>
          if s < 0 then Inl (ValueError ''expected non-negative integer'')
          else Inr (FromSeed (nat s)))"

text \<open>
  \<^verbatim>\<open>rng.normal(loc, scale, size=n)\<close> on a fresh generator: the \<open>t\<close>-th value is
  \<open>loc + scale * z\<close> for the \<open>t\<close>-th standard normal variate \<open>z\<close> of the generator.
  A negative size is refused.
\<close>

definition normal ::
  "(seeding \<Rightarrow> nat \<Rightarrow> real) \<Rightarrow> seeding \<Rightarrow> real \<Rightarrow> real \<Rightarrow> int \<Rightarrow> py_error + real list" where
  "normal g rng loc scale n =
     (if n < 0 then Inl (ValueError ''negative dimensions are not allowed'')
      else Inr (map (\<lambda>t. loc + scale * g rng t) [0..<nat n]))"

subsection \<open>Array arithmetic\<close>

definition arange :: "int \<Rightarrow> real list" where
  "arange n = map real [0..<nat n]"

definition scalar_add :: "real \<Rightarrow> real list \<Rightarrow> real list" where
  "scalar_add c xs = map (\<lambda>x. c + x) xs"

definition array_add :: "real list \<Rightarrow> real list \<Rightarrow> real list" where
  "array_add xs ys = map2 (+) xs ys"

text \<open>\<^verbatim>\<open>astype(int)\<close> on a float truncates towards zero.\<close>

definition astype_int :: "real \<Rightarrow> int" where
  "astype_int x = (if 0 \<le> x then \<lfloor>x\<rfloor> else \<lceil>x\<rceil>)"

subsection \<open>Simulated trends\<close>

record price_frame =
  price_month :: "timestamp list"
  price :: "real list"

record bookings_frame =
  bookings_month :: "timestamp list"
  bookings :: "int list"

text \<open>
  \<^verbatim>\<open>
  def simulate_price_trend(route, months=24, seed=None):
      rng = np.random.default_rng(seed)
      t = np.arange(months)
      season = 15 * np.sin(2 * np.pi * t / 12)
      base = 100 + (hash(route) % 50)
      trend = 0.5 * t
      noise = rng.normal(0, 6, size=months)
      prices = base + season + trend + noise
      dates = pd.date_range(end=pd.Timestamp.today(), periods=months, freq="M")
      return pd.DataFrame({"month": dates, "price": prices})
  \<close>
  The generator is made first, so a refused seed is the first error; a negative
  \<open>months\<close> gives empty arrays until \<^verbatim>\<open>rng.normal\<close> refuses the size.
\<close>

definition price_base :: "(string \<Rightarrow> int) \<Rightarrow> string \<Rightarrow> int" where
  "price_base h route = 100 + (h route mod 50)"

definition price_season :: "int \<Rightarrow> real list" where
  "price_season months = map (\<lambda>t. 15 * sin (2 * pi * t / 12)) (arange months)"

definition price_trend :: "int \<Rightarrow> real list" where
  "price_trend months = map (\<lambda>t. 0.5 * t) (arange months)"

definition price_noise ::
  "(seeding \<Rightarrow> nat \<Rightarrow> real) \<Rightarrow> seeding \<Rightarrow> int \<Rightarrow> py_error + real list" where
  "price_noise g rng months = normal g rng 0 6 months"

definition simulate_price_trend ::
  "(string \<Rightarrow> int) \<Rightarrow> (seeding \<Rightarrow> nat \<Rightarrow> real) \<Rightarrow> nat \<Rightarrow> timestamp \<Rightarrow>
   string \<Rightarrow> int \<Rightarrow> int option \<Rightarrow> py_error + price_frame" where
  "simulate_price_trend h g e today route months seed =
     (case default_rng e seed of
        Inl err \<Rightarrow> Inl err
      | Inr rng \<Rightarrow>
          (case price_noise g rng months of
             Inl err \<Rightarrow> Inl err
           | Inr noise \<Rightarrow>
               let prices =
                     array_add
                       (array_add (scalar_add (real_of_int (price_base h route)) (price_season months))
                          (price_trend months))
                       noise;
                   dates = date_range today (nat months)
               in Inr \<lparr>price_month = dates, price = prices\<rparr>))"

text \<open>
  \<^verbatim>\<open>
  def simulate_booking_counts(route, months=24, seed=None):
      rng = np.random.default_rng(seed)
      t = np.arange(months)
      season = 300 * (1 + 0.4 * np.sin(2 * np.pi * t / 12))
      base = 500 + (hash(route) % 200)
      noise = rng.normal(0, 40, size=months)
      counts = np.maximum(0, base + season + noise).astype(int)
      dates = pd.date_range(end=pd.Timestamp.today(), periods=months, freq="M")
      return pd.DataFrame({"month": dates, "bookings": counts})
  \<close>
\<close>

definition bookings_base :: "(string \<Rightarrow> int) \<Rightarrow> string \<Rightarrow> int" where
  "bookings_base h route = 500 + (h route mod 200)"

definition bookings_season :: "int \<Rightarrow> real list" where
  "bookings_season months = map (\<lambda>t. 300 * (1 + 0.4 * sin (2 * pi * t / 12))) (arange months)"

definition bookings_noise ::
  "(seeding \<Rightarrow> nat \<Rightarrow> real) \<Rightarrow> seeding \<Rightarrow> int \<Rightarrow> py_error + real list" where
  "bookings_noise g rng months = normal g rng 0 40 months"

definition simulate_booking_counts ::
  "(string \<Rightarrow> int) \<Rightarrow> (seeding \<Rightarrow> nat \<Rightarrow> real) \<Rightarrow> nat \<Rightarrow> timestamp \<Rightarrow>
   string \<Rightarrow> int \<Rightarrow> int option \<Rightarrow> py_error + bookings_frame" where
  "simulate_booking_counts h g e today route months seed =
     (case default_rng e seed of
        Inl err \<Rightarrow> Inl err
      | Inr rng \<Rightarrow>
          (case bookings_noise g rng months of
             Inl err \<Rightarrow> Inl err
           | Inr noise \<Rightarrow>
               let counts =
                     map (\<lambda>x. astype_int (max 0 x))
                       (array_add
                          (scalar_add (real_of_int (bookings_base h route)) (bookings_season months))
                          noise);
                   dates = date_range today (nat months)
               in Inr \<lparr>bookings_month = dates, bookings = counts\<rparr>))"

text \<open>The defaults of the two signatures: \<^verbatim>\<open>months=24, seed=None\<close>.\<close>

definition default_months :: int where
  "default_months = 24"

definition default_seed :: "int option" where
  "default_seed = None"

subsection \<open>The builtin string hash\<close>

text \<open>
  \<^verbatim>\<open>hash(route)\<close> on a \<^verbatim>\<open>str\<close> is CPython's keyed SipHash-1-3 of the string's
  bytes (one byte per character for the Latin-1 range), read as a signed 64-bit
  integer, with \<open>-1\<close> replaced by \<open>-2\<close> and the empty string hashed to \<open>0\<close>. The key
  is the interpreter's hash secret: drawn at random when the process starts, all
  zero under \<^verbatim>\<open>PYTHONHASHSEED=0\<close>.
\<close>

type_synonym u64 = "64 word"

type_synonym sip_state = "u64 \<times> u64 \<times> u64 \<times> u64"

definition rotate :: "u64 \<Rightarrow> nat \<Rightarrow> u64" where
  "rotate x b = push_bit b x OR drop_bit (64 - b) x"

definition half_round :: "nat \<Rightarrow> nat \<Rightarrow> sip_state \<Rightarrow> sip_state" where
  "half_round s t v =
     (case v of (a, b, c, d) \<Rightarrow>
        let a = a + b; c = c + d;
            b = rotate b s XOR a;
            d = rotate d t XOR c;
            a = rotate a 32
        in (a, b, c, d))"

definition single_round :: "sip_state \<Rightarrow> sip_state" where
  "single_round v =
     (case half_round 13 16 v of (v0, v1, v2, v3) \<Rightarrow>
        (case half_round 17 21 (v2, v1, v0, v3) of (v2, v1, v0, v3) \<Rightarrow> (v0, v1, v2, v3)))"

fun le64 :: "char list \<Rightarrow> u64" where
  "le64 [] = 0"
| "le64 (c # cs) = of_char c OR push_bit 8 (le64 cs)"

fun sip_blocks :: "sip_state \<Rightarrow> char list \<Rightarrow> sip_state \<times> char list" where
  "sip_blocks v src =
     (if 8 \<le> length src then
        (case v of (v0, v1, v2, v3) \<Rightarrow>
           let mi = le64 (take 8 src) in
           (case single_round (v0, v1, v2, v3 XOR mi) of (v0, v1, v2, v3) \<Rightarrow>
              sip_blocks (v0 XOR mi, v1, v2, v3) (drop 8 src)))
      else (v, src))"

declare sip_blocks.simps [simp del]

definition siphash13 :: "u64 \<Rightarrow> u64 \<Rightarrow> char list \<Rightarrow> u64" where
  "siphash13 k0 k1 src =
     (let b = push_bit 56 (of_nat (length src));
          v0 = k0 XOR 0x736f6d6570736575;
          v1 = k1 XOR 0x646f72616e646f6d;
          v2 = k0 XOR 0x6c7967656e657261;
          v3 = k1 XOR 0x7465646279746573
      in (case sip_blocks (v0, v1, v2, v3) src of ((v0, v1, v2, v3), rest) \<Rightarrow>
            let b = b OR le64 rest in
            (case single_round (v0, v1, v2, v3 XOR b) of (v0, v1, v2, v3) \<Rightarrow>
               (case single_round (single_round (single_round (v0 XOR b, v1, v2 XOR 0xff, v3))) of
                  (v0, v1, v2, v3) \<Rightarrow> (v0 XOR v1) XOR (v2 XOR v3)))))"

definition str_hash :: "u64 \<times> u64 \<Rightarrow> string \<Rightarrow> int" where
  "str_hash secret s =
     (if s = [] then 0
      else let x = sint (siphash13 (fst secret) (snd secret) s)
           in if x = - 1 then - 2 else x)"

text \<open>
  Two hash secrets: the one of \<^verbatim>\<open>PYTHONHASHSEED=0\<close> and the one CPython derives for
  \<^verbatim>\<open>PYTHONHASHSEED=2\<close>.
\<close>

definition secret_seed0 :: "u64 \<times> u64" where
  "secret_seed0 = (0, 0)"

definition secret_seed2 :: "u64 \<times> u64" where
  "secret_seed2 = (4611336564914921517, 11932672506142756049)"

text \<open>
  A stand-in for the generator's stream of standard normal variates, for evaluating
  the simulators on concrete inputs. The theorems below hold for every stream.
\<close>

definition sample_normal :: "seeding \<Rightarrow> nat \<Rightarrow> real" where
  "sample_normal rng t =
     (case rng of
        FromSeed s \<Rightarrow> (real s + 3 * real t - 20) / 64
      | FromEntropy e \<Rightarrow> (real e + real t) / 64)"

text \<open>A moment for evaluating the simulators: 4 November 2026, half past ten.\<close>

definition sample_today :: timestamp where
  "sample_today = \<lparr>ts_year = 2026, ts_month = 11, ts_day = 4, ts_time = 37800\<rparr>"

text \<open>
  The booking formula as the specification words it, with rounding to the nearest
  integer before the clamp at zero.
\<close>

definition bookings_spec ::
  "(string \<Rightarrow> int) \<Rightarrow> (seeding \<Rightarrow> nat \<Rightarrow> real) \<Rightarrow> seeding \<Rightarrow> string \<Rightarrow> nat \<Rightarrow> int list" where
  "bookings_spec h g rng route months =
     map (\<lambda>t. max 0 (round (real_of_int (500 + (h route mod 200)) +
                 300 * (1 + 0.4 * sin (2 * pi * real t / 12)) + 40 * g rng t)))
       [0..<months]"

section \<open>The route network\<close>

subsection \<open>Tables\<close>

text \<open>
  A table is the list of its rows; a cell is \<open>None\<close> where pandas holds NaN. Of the
  fourteen airport columns the join reads six.
\<close>

record airport =
  IATA :: "string option"
  City :: "string option"
  Country :: "string option"
  Name :: "string option"
  Latitude :: "string option"
  Longitude :: "string option"

record route =
  Airline :: "string option"
  AirlineID :: "string option"
  SourceIATA :: "string option"
  SourceAirportID :: "string option"
  DestIATA :: "string option"
  DestAirportID :: "string option"
  Codeshare :: "string option"
  Stops :: "string option"
  Equipment :: "string option"

record route_src = route +
  SourceCity :: "string option"
  SourceCountry :: "string option"
  SourceName :: "string option"
  SourceLat :: "string option"
  SourceLon :: "string option"

record route_src_dest = route_src +
  DestCity :: "string option"
  DestCountry :: "string option"
  DestName :: "string option"
  DestLat :: "string option"
  DestLon :: "string option"

record enriched_route = route_src_dest +
  route_id :: "string option"

text \<open>The feed's null marker, the two characters backslash and N.\<close>

definition sentinel :: string where
  "sentinel = [CHR 0x5C, CHR ''N'']"

subsection \<open>Join airports and routes\<close>

definition filter_airports :: "airport list \<Rightarrow> airport list" where
  "filter_airports airports =
     filter (\<lambda>a. IATA a \<noteq> Some sentinel) (filter (\<lambda>a. IATA a \<noteq> None) airports)"

definition filter_routes :: "route list \<Rightarrow> route list" where
  "filter_routes routes =
     filter (\<lambda>r. SourceIATA r \<noteq> Some sentinel \<and> DestIATA r \<noteq> Some sentinel) routes"

text \<open>
  \<^verbatim>\<open>left.merge(right, left_on=key, right_on="IATA", how="left")\<close>: the left rows in
  their order, each once per matching right row, and once with empty right columns
  when no right row matches.
\<close>

definition merge_left ::
  "('l \<Rightarrow> string option) \<Rightarrow> ('l \<Rightarrow> airport option \<Rightarrow> 'r) \<Rightarrow> 'l list \<Rightarrow> airport list \<Rightarrow> 'r list" where
  "merge_left key combine left right =
     concat (map (\<lambda>l.
       (case filter (\<lambda>a. IATA a = key l) right of
          [] \<Rightarrow> [combine l None]
        | ms \<Rightarrow> map (\<lambda>a. combine l (Some a)) ms)) left)"

definition add_source :: "route \<Rightarrow> airport option \<Rightarrow> route_src" where
  "add_source r m =
     route.extend r
       (route_src.fields (Option.bind m City) (Option.bind m Country) (Option.bind m Name)
          (Option.bind m Latitude) (Option.bind m Longitude))"

definition add_dest :: "route_src \<Rightarrow> airport option \<Rightarrow> route_src_dest" where
  "add_dest r m =
     route_src.extend r
       (route_src_dest.fields (Option.bind m City) (Option.bind m Country) (Option.bind m Name)
          (Option.bind m Latitude) (Option.bind m Longitude))"

definition join_codes :: "string option \<Rightarrow> string option \<Rightarrow> string option" where
  "join_codes src dst =
     (case src of
        None \<Rightarrow> None
      | Some s \<Rightarrow> (case dst of None \<Rightarrow> None | Some d \<Rightarrow> Some (s @ ''-'' @ d)))"

definition add_route_id :: "route_src_dest \<Rightarrow> enriched_route" where
  "add_route_id r =
     route_src_dest.extend r (enriched_route.fields (join_codes (SourceIATA r) (DestIATA r)))"

definition prepare_routes :: "airport list \<Rightarrow> route list \<Rightarrow> enriched_route list" where
  "prepare_routes airports routes =
     (let a = filter_airports airports;
          r = filter_routes routes;
          r = merge_left SourceIATA add_source r a;
          r = merge_left DestIATA add_dest r a
      in map add_route_id r)"

text \<open>Sample rows for evaluating the join and the ranking.\<close>

definition sample_airport :: "string \<Rightarrow> string \<Rightarrow> string \<Rightarrow> airport" where
  "sample_airport code city country =
     \<lparr>IATA = Some code, City = Some city, Country = Some country, Name = None,
      Latitude = None, Longitude = None\<rparr>"

definition sample_route :: "string \<Rightarrow> string \<Rightarrow> route" where
  "sample_route src dst =
     \<lparr>Airline = None, AirlineID = None, SourceIATA = Some src, SourceAirportID = None,
      DestIATA = Some dst, DestAirportID = None, Codeshare = None, Stops = None,
      Equipment = None\<rparr>"

definition sample_airports :: "airport list" where
  "sample_airports =
     [sample_airport ''SYD'' ''Sydney'' ''Australia'',
      sample_airport sentinel ''Nowhere'' ''Australia'',
      sample_airport ''MEL'' ''Melbourne'' ''Australia'']"

definition sample_routes :: "route list" where
  "sample_routes =
     [sample_route ''SYD'' ''MEL'', sample_route sentinel ''MEL'', sample_route ''SYD'' ''BNE'']"

subsection \<open>Route ranking\<close>

text \<open>
  \<^verbatim>\<open>
  routes_filtered = routes if country_filter == "All" else routes[routes.SourceCountry == country_filter]
  route_counts = (
      routes_filtered.groupby("route")
      .size()
      .reset_index(name="count")
      .sort_values("count", ascending=False)
  )
  \<close>
\<close>

definition filter_country :: "string \<Rightarrow> enriched_route list \<Rightarrow> enriched_route list" where
  "filter_country country_filter routes =
     (if country_filter = ''All'' then routes
      else filter (\<lambda>r. SourceCountry r = Some country_filter) routes)"

text \<open>
  \<^verbatim>\<open>groupby("route").size().reset_index(name="count")\<close>: one record per route
  identifier that is present, in ascending order of the identifiers, with the number
  of rows that carry it.
\<close>

definition group_keys :: "enriched_route list \<Rightarrow> string list" where
  "group_keys rows = sort (remdups (List.map_filter route_id rows))"

definition groupby_size :: "enriched_route list \<Rightarrow> (string \<times> nat) list" where
  "groupby_size rows =
     map (\<lambda>k. (k, length (filter (\<lambda>r. route_id r = Some k) rows))) (group_keys rows)"

text \<open>
  \<^verbatim>\<open>sort_values("count", ascending=False)\<close> with the default sort kind: pandas
  reverses the column, takes the ascending argsort of the library and reverses the
  resulting order. The argsort is an argument of the model.
\<close>

definition sort_values_desc ::
  "(nat list \<Rightarrow> nat list) \<Rightarrow> (string \<times> nat) list \<Rightarrow> (string \<times> nat) list" where
  "sort_values_desc argsort rows =
     (let items = rev (map snd rows);
          idx = rev [0..<length rows];
          indexer = rev (map (\<lambda>i. idx ! i) (argsort items))
      in map (\<lambda>i. rows ! i) indexer)"

definition route_counts ::
  "(nat list \<Rightarrow> nat list) \<Rightarrow> enriched_route list \<Rightarrow> string \<Rightarrow> (string \<times> nat) list" where
  "route_counts argsort routes country_filter =
     sort_values_desc argsort (groupby_size (filter_country country_filter routes))"

text \<open>What the ranking needs of the argsort: the positions, each once, keys ascending.\<close>

definition argsort_ok :: "(nat list \<Rightarrow> nat list) \<Rightarrow> bool" where
  "argsort_ok argsort =
     (\<forall>ks. mset (argsort ks) = mset [0..<length ks] \<and> sorted (map (\<lambda>i. ks ! i) (argsort ks)))"

text \<open>An argsort that keeps equal keys in their order.\<close>

definition stable_argsort :: "nat list \<Rightarrow> nat list" where
  "stable_argsort ks = map snd (sort_key fst (zip ks [0..<length ks]))"

text \<open>
  The position of the first row of a table that carries a route identifier, and the
  order the specification asks of equal counts: first seen, first listed.
\<close>

definition first_seen :: "enriched_route list \<Rightarrow> string \<Rightarrow> nat" where
  "first_seen rows k = length (takeWhile (\<lambda>r. route_id r \<noteq> Some k) rows)"

definition ties_first_seen :: "enriched_route list \<Rightarrow> (string \<times> nat) list \<Rightarrow> bool" where
  "ties_first_seen rows recs =
     sorted_wrt (\<lambda>a b. snd a = snd b \<longrightarrow> first_seen rows (fst a) < first_seen rows (fst b)) recs"

definition counts_descending :: "(string \<times> nat) list \<Rightarrow> bool" where
  "counts_descending recs = sorted_wrt (\<lambda>a b. snd b \<le> snd a) recs"

section \<open>The live flight gateway\<close>

datatype json =
  JNull
| JBool bool
| JNum int
| JStr string
| JArr "json list"
| JObj "(string \<times> json) list"

text \<open>
  \<^verbatim>\<open>
  def get_live_flights(origin, destination, limit=10):
      if not AVIATIONSTACK_KEY:
          return {"error": "AVIATIONSTACK_KEY missing. Add it to .env or Streamlit Secrets."}
      url = "http://api.aviationstack.com/v1/flights"
      params = {"access_key": AVIATIONSTACK_KEY, "dep_iata": origin,
                "arr_iata": destination, "limit": limit}
      try:
          resp = requests.get(url, params=params, timeout=10)
          resp.raise_for_status()
          return resp.json()
      except Exception as e:
          return {"error": str(e)}
  \<close>
  A JSON value is what \<^verbatim>\<open>resp.json()\<close> can return; a dictionary is the list of its
  entries.
\<close>

record request =
  url :: string
  params :: "(string \<times> string) list"

text \<open>
  What the three calls of the \<^verbatim>\<open>try\<close> block come to: an exception with its
  text (from the request, from the status check or from the JSON decoder), or the
  decoded body.
\<close>

datatype http_outcome = Raised string | Body json

definition error_dict :: "string \<Rightarrow> json" where
  "error_dict msg = JObj [(''error'', JStr msg)]"

definition key_missing :: "string option \<Rightarrow> bool" where
  "key_missing k = (case k of None \<Rightarrow> True | Some s \<Rightarrow> s = [])"

text \<open>
  The gateway returns its value together with the requests it has sent. The limit is
  passed on as text.
\<close>

definition flights_request :: "string \<Rightarrow> string \<Rightarrow> string \<Rightarrow> string \<Rightarrow> request" where
  "flights_request access_key origin destination limit =
     \<lparr>url = ''http://api.aviationstack.com/v1/flights'',
      params = [(''access_key'', access_key), (''dep_iata'', origin),
                (''arr_iata'', destination), (''limit'', limit)]\<rparr>"

definition get_live_flights ::
  "string option \<Rightarrow> (request \<Rightarrow> http_outcome) \<Rightarrow> string \<Rightarrow> string \<Rightarrow> string \<Rightarrow> json \<times> request list" where
  "get_live_flights aviationstack_key http origin destination limit =
     (if key_missing aviationstack_key then
        (error_dict ''AVIATIONSTACK_KEY missing. Add it to .env or Streamlit Secrets.'', [])
      else
        let req = flights_request (the aviationstack_key) origin destination limit
        in (case http req of
              Raised msg \<Rightarrow> (error_dict msg, [req])
            | Body j \<Rightarrow> (j, [req])))"

text \<open>A call fails when the key is missing or the \<^verbatim>\<open>try\<close> block raises.\<close>

definition gateway_failed ::
  "string option \<Rightarrow> (request \<Rightarrow> http_outcome) \<Rightarrow> string \<Rightarrow> string \<Rightarrow> string \<Rightarrow> bool" where
  "gateway_failed aviationstack_key http origin destination limit =
     (if key_missing aviationstack_key then True
      else (case http (flights_request (the aviationstack_key) origin destination limit) of
              Raised msg \<Rightarrow> True
            | Body j \<Rightarrow> False))"

text \<open>The branch of the page that shows the gateway's value.\<close>

text \<open>
  \<^verbatim>\<open>
  if "error" in flights:
      st.error(flights["error"])
  else:
      data = flights.get("data", [])
      if not data:
          st.info("No live flights found for this route. ...")
      else:
          df = pd.json_normalize(data)
  \<close>
\<close>

datatype shown = ErrorMessage json | NoFlightsInfo | FlightTable json

fun falsy :: "json \<Rightarrow> bool" where
  "falsy JNull = True"
| "falsy (JBool b) = (\<not> b)"
| "falsy (JNum n) = (n = 0)"
| "falsy (JStr s) = (s = [])"
| "falsy (JArr xs) = (xs = [])"
| "falsy (JObj kvs) = (kvs = [])"

text \<open>The substring test that \<^verbatim>\<open>in\<close> makes on a string.\<close>

fun contains :: "string \<Rightarrow> string \<Rightarrow> bool" where
  "contains sub [] = (sub = [])"
| "contains sub (c # cs) = (take (length sub) (c # cs) = sub \<or> contains sub cs)"

text \<open>
  Only a dictionary gets through the branch. On \<^verbatim>\<open>None\<close>, a boolean or a number
  the membership test raises a TypeError. On a list or a string the test is a
  membership or substring test: where it holds, the subscript raises a TypeError;
  where it does not, \<^verbatim>\<open>flights.get\<close> raises an AttributeError.
\<close>

definition show_flights :: "json \<Rightarrow> py_error + shown" where
  "show_flights flights =
     (case flights of
        JObj kvs \<Rightarrow>
          (case map_of kvs ''error'' of
             Some err \<Rightarrow> Inr (ErrorMessage err)
           | None \<Rightarrow>
               (case map_of kvs ''data'' of
                  None \<Rightarrow> Inr NoFlightsInfo
                | Some d \<Rightarrow> if falsy d then Inr NoFlightsInfo else Inr (FlightTable d)))
      | JArr xs \<Rightarrow>
          if JStr ''error'' \<in> set xs
          then Inl (TypeError ''list indices must be integers or slices, not str'')
          else Inl (AttributeError ''list object has no attribute get'')
      | JStr s \<Rightarrow>
          if contains ''error'' s
          then Inl (TypeError ''string indices must be integers, not str'')
          else Inl (AttributeError ''str object has no attribute get'')
      | _ \<Rightarrow> Inl (TypeError ''argument is not iterable''))"

text \<open>A successful result with no flights: a dictionary whose data array is empty.\<close>

definition empty_result :: "json \<Rightarrow> bool" where
  "empty_result j = (case j of JObj kvs \<Rightarrow> map_of kvs ''data'' = Some (JArr []) | _ \<Rightarrow> False)"

section \<open>Properties of the trend simulator\<close>

lemma sip_blocks_short: "length src < 8 \<Longrightarrow> sip_blocks v src = (v, src)"
  by (simp add: sip_blocks.simps)

lemma siphash13_seed0_SYD_MEL: "siphash13 0 0 ''SYD-MEL'' = 5950965263737004884"
  by (simp add: siphash13_def sip_blocks_short single_round_def half_round_def rotate_def)

lemma siphash13_seed0_SYD_BNE: "siphash13 0 0 ''SYD-BNE'' = 1763838723181174258"
  by (simp add: siphash13_def sip_blocks_short single_round_def half_round_def rotate_def)

lemma siphash13_seed0_CDG_LHR: "siphash13 0 0 ''CDG-LHR'' = 1511335212938607308"
  by (simp add: siphash13_def sip_blocks_short single_round_def half_round_def rotate_def)

lemma siphash13_seed2_SYD_MEL:
  "siphash13 4611336564914921517 11932672506142756049 ''SYD-MEL'' = 374114445687409199"
  by (simp add: siphash13_def sip_blocks_short single_round_def half_round_def rotate_def)

lemma str_hash_seed0_SYD_MEL: "str_hash secret_seed0 ''SYD-MEL'' = 5950965263737004884"
  by (simp add: str_hash_def secret_seed0_def siphash13_seed0_SYD_MEL)

lemma str_hash_seed0_SYD_BNE: "str_hash secret_seed0 ''SYD-BNE'' = 1763838723181174258"
  by (simp add: str_hash_def secret_seed0_def siphash13_seed0_SYD_BNE)

lemma str_hash_seed0_CDG_LHR: "str_hash secret_seed0 ''CDG-LHR'' = 1511335212938607308"
  by (simp add: str_hash_def secret_seed0_def siphash13_seed0_CDG_LHR)

lemma str_hash_seed2_SYD_MEL: "str_hash secret_seed2 ''SYD-MEL'' = 374114445687409199"
  by (simp add: str_hash_def secret_seed2_def siphash13_seed2_SYD_MEL)

lemma map2_same_index:
  "map2 f (map a xs) (map b xs) = map (\<lambda>x. f (a x) (b x)) xs"
  by (induction xs) simp_all

lemma simulate_price_trend_returns:
  assumes "0 \<le> months" and "default_rng e seed = Inr rng"
  shows "simulate_price_trend h g e today route months seed =
    Inr \<lparr>price_month = date_range today (nat months),
         price = map (\<lambda>t. real_of_int (price_base h route) + 15 * sin (2 * pi * real t / 12)
                        + 0.5 * real t + 6 * g rng t) [0..<nat months]\<rparr>"
  using assms
  by (simp add: simulate_price_trend_def price_noise_def normal_def price_season_def
      price_trend_def arange_def scalar_add_def array_add_def map2_same_index o_def
      mult.commute [of pi])

lemma simulate_booking_counts_returns:
  assumes "0 \<le> months" and "default_rng e seed = Inr rng"
  shows "simulate_booking_counts h g e today route months seed =
    Inr \<lparr>bookings_month = date_range today (nat months),
         bookings = map (\<lambda>t. astype_int (max 0 (real_of_int (bookings_base h route)
                        + 300 * (1 + 0.4 * sin (2 * pi * real t / 12)) + 40 * g rng t)))
                      [0..<nat months]\<rparr>"
  using assms
  by (simp add: simulate_booking_counts_def bookings_noise_def normal_def bookings_season_def
      arange_def scalar_add_def array_add_def map2_same_index o_def mult.commute [of pi])

lemma simulate_price_trend_negative_months:
  "months < 0 \<Longrightarrow> default_rng e seed = Inr rng \<Longrightarrow>
   simulate_price_trend h g e today route months seed =
     Inl (ValueError ''negative dimensions are not allowed'')"
  by (simp add: simulate_price_trend_def price_noise_def normal_def)

lemma simulate_booking_counts_negative_months:
  "months < 0 \<Longrightarrow> default_rng e seed = Inr rng \<Longrightarrow>
   simulate_booking_counts h g e today route months seed =
     Inl (ValueError ''negative dimensions are not allowed'')"
  by (simp add: simulate_booking_counts_def bookings_noise_def normal_def)

lemma simulate_price_trend_bad_seed:
  "default_rng e seed = Inl err \<Longrightarrow>
   simulate_price_trend h g e today route months seed = Inl err"
  by (simp add: simulate_price_trend_def)

lemma astype_int_clamped: "astype_int (max 0 x) = \<lfloor>max 0 x\<rfloor>"
  by (simp add: astype_int_def)




















lemma default_rng_explicit_seed: "default_rng e1 (Some s) = default_rng e2 (Some s)"
  by (simp add: default_rng_def)

text \<open>
  Inside one interpreter, where both calls see the same builtin hash, two calls with
  the same route, months and explicit seed give the same outcome and the same price
  and booking values, at any two moments and with any two states of the entropy
  source.
\<close>

lemma simulator_repeatable_in_process:
  "map_sum id price (simulate_price_trend h g e1 today1 route months (Some s)) =
   map_sum id price (simulate_price_trend h g e2 today2 route months (Some s)) \<and>
   map_sum id bookings (simulate_booking_counts h g e1 today1 route months (Some s)) =
   map_sum id bookings (simulate_booking_counts h g e2 today2 route months (Some s))"
  by (simp add: simulate_price_trend_def simulate_booking_counts_def Let_def
      default_rng_explicit_seed [of e1 s e2] split: sum.splits)

text \<open>
  Claim C1. Two calls of the simulators with the same route, months and explicit
  seed are to give the same price and booking series. The code does not: the
  baselines come from the builtin hash, which is keyed by the interpreter's secret.
  For one month of SYD-MEL under seed 42, whatever the generator draws, the price is
  134 plus the noise in a process with the all-zero secret and 149 plus the same
  noise in a process with the secret of \<^verbatim>\<open>PYTHONHASHSEED=2\<close>; with the sample
  stream the booking values are 897 and 1012.
\<close>

theorem C1_series_follow_hash_secret:
  "map_sum id price
     (simulate_price_trend (str_hash secret_seed0) g e1 today1 ''SYD-MEL'' 1 (Some 42)) =
     Inr [134 + 6 * g (FromSeed 42) 0] \<and>
   map_sum id price
     (simulate_price_trend (str_hash secret_seed2) g e2 today2 ''SYD-MEL'' 1 (Some 42)) =
     Inr [149 + 6 * g (FromSeed 42) 0] \<and>
   map_sum id bookings
     (simulate_booking_counts (str_hash secret_seed0) sample_normal e1 today1 ''SYD-MEL'' 1
        (Some 42)) = Inr [897] \<and>
   map_sum id bookings
     (simulate_booking_counts (str_hash secret_seed2) sample_normal e2 today2 ''SYD-MEL'' 1
        (Some 42)) = Inr [1012]"
proof -
  have m: "(0::int) \<le> 1"
    by simp
  have rng: "default_rng e (Some 42) = Inr (FromSeed 42)" for e
    by (simp add: default_rng_def)
  have lo: "\<lfloor>3591 / 4 :: real\<rfloor> = 897"
    by (simp add: floor_eq_iff)
  have hi: "\<lfloor>4051 / 4 :: real\<rfloor> = 1012"
    by (simp add: floor_eq_iff)
  have prices0: "map_sum id price
     (simulate_price_trend (str_hash secret_seed0) g e1 today1 ''SYD-MEL'' 1 (Some 42)) =
     Inr [134 + 6 * g (FromSeed 42) 0]"
    by (simp add: simulate_price_trend_returns [OF m rng] price_base_def str_hash_seed0_SYD_MEL)
  have prices2: "map_sum id price
     (simulate_price_trend (str_hash secret_seed2) g e2 today2 ''SYD-MEL'' 1 (Some 42)) =
     Inr [149 + 6 * g (FromSeed 42) 0]"
    by (simp add: simulate_price_trend_returns [OF m rng] price_base_def str_hash_seed2_SYD_MEL)
  have counts0: "map_sum id bookings
     (simulate_booking_counts (str_hash secret_seed0) sample_normal e1 today1 ''SYD-MEL'' 1
        (Some 42)) = Inr [897]"
    by (simp add: simulate_booking_counts_returns [OF m rng] astype_int_def bookings_base_def
        str_hash_seed0_SYD_MEL sample_normal_def lo)
  have counts2: "map_sum id bookings
     (simulate_booking_counts (str_hash secret_seed2) sample_normal e2 today2 ''SYD-MEL'' 1
        (Some 42)) = Inr [1012]"
    by (simp add: simulate_booking_counts_returns [OF m rng] astype_int_def bookings_base_def
        str_hash_seed2_SYD_MEL sample_normal_def hi)
  from prices0 prices2 counts0 counts2 show ?thesis
    by blast
qed

text \<open>
  Claim C2. The price baseline is \<open>100 + (hash(route) mod 50)\<close> for the builtin hash
  of the running interpreter, and that hash is keyed by the interpreter's secret: for
  the route SYD-MEL the baseline is 134 in a process with the all-zero secret and 149
  in a process with the secret of \<^verbatim>\<open>PYTHONHASHSEED=2\<close>. The baseline is not stable
  across processes.
\<close>

theorem C2_base_follows_hash_secret:
  "price_base (str_hash secret_seed0) ''SYD-MEL'' = 134 \<and>
   price_base (str_hash secret_seed2) ''SYD-MEL'' = 149"
  by (simp add: price_base_def str_hash_seed0_SYD_MEL str_hash_seed2_SYD_MEL)

text \<open>
  Claim C3, as stated, fails: two distinct routes can have the same baseline. In a
  process with the all-zero hash secret, SYD-BNE and CDG-LHR both get the baseline 108.
\<close>

theorem C3_distinct_routes_same_base:
  "''SYD-BNE'' \<noteq> ''CDG-LHR'' \<and>
   price_base (str_hash secret_seed0) ''SYD-BNE'' = price_base (str_hash secret_seed0) ''CDG-LHR''"
  by (simp add: price_base_def str_hash_seed0_SYD_BNE str_hash_seed0_CDG_LHR)

text \<open>
  Claim C3, amended. For any two routes simulated by one interpreter with the same
  months and the same explicit seed, both calls have the same outcome, and the price
  series of the first is the price series of the second shifted by the difference of
  the two baselines at every month index: the noise offsets are the same, and the
  baselines may or may not differ.
\<close>

theorem C3_routes_share_noise:
  "map_sum id price (simulate_price_trend h g e1 today1 r1 months (Some s)) =
   map_sum id (\<lambda>df. map (\<lambda>x. x + real_of_int (price_base h r1 - price_base h r2)) (price df))
     (simulate_price_trend h g e2 today2 r2 months (Some s))"
proof (cases "s < 0")
  case True
  then show ?thesis
    by (simp add: simulate_price_trend_def default_rng_def)
next
  case False
  then have rng: "default_rng e1 (Some s) = Inr (FromSeed (nat s))"
    "default_rng e2 (Some s) = Inr (FromSeed (nat s))"
    by (simp_all add: default_rng_def)
  show ?thesis
  proof (cases "months < 0")
    case True
    then show ?thesis
      by (simp add: simulate_price_trend_negative_months [OF _ rng(1)]
          simulate_price_trend_negative_months [OF _ rng(2)])
  next
    case False
    then have m: "0 \<le> months" by simp
    show ?thesis
      by (simp add: simulate_price_trend_returns [OF m rng(1)]
          simulate_price_trend_returns [OF m rng(2)] o_def)
  qed
qed

text \<open>
  Claim C6, amended. When the months are not negative and the generator is seeded,
  the booking series at month index \<open>t\<close> is the value
  \<open>max(0, base2 + 300 (1 + 0.4 sin(2 pi t / 12)) + noise2[t])\<close> truncated to an
  integer (not rounded to the nearest), with \<open>base2 = 500 + (hash(route) mod 200)\<close>
  and \<open>noise2[t]\<close> forty times the generator's \<open>t\<close>-th standard normal variate; the
  series has one value per month and every value is a non-negative integer.
\<close>

theorem C6_bookings_truncated:
  assumes "0 \<le> months" and "default_rng e seed = Inr rng"
  shows "map_sum id bookings (simulate_booking_counts h g e today route months seed) =
      Inr (map (\<lambda>t. \<lfloor>max 0 (real_of_int (500 + (h route mod 200)) +
                         300 * (1 + 0.4 * sin (2 * pi * real t / 12)) + 40 * g rng t)\<rfloor>)
             [0..<nat months]) \<and>
    (\<forall>df. simulate_booking_counts h g e today route months seed = Inr df \<longrightarrow>
       int (length (bookings df)) = months \<and> (\<forall>b \<in> set (bookings df). 0 \<le> b))"
proof -
  have "\<And>x. (0::int) \<le> \<lfloor>max 0 (x::real)\<rfloor>"
    by simp
  then show ?thesis
    using assms(1)
    by (auto simp add: simulate_booking_counts_returns [OF assms] astype_int_clamped
        bookings_base_def)
qed

text \<open>
  The amended claim at one month of SYD-MEL under seed 42: the single booking value
  is 897.
\<close>

theorem C6_bookings_truncated_witness:
  "(0::int) \<le> 1 \<and> default_rng 0 (Some 42) = Inr (FromSeed 42) \<and>
   map_sum id bookings
     (simulate_booking_counts (str_hash secret_seed0) sample_normal 0 sample_today ''SYD-MEL'' 1
        (Some 42)) = Inr [897]"
proof -
  have rng: "default_rng 0 (Some 42) = Inr (FromSeed 42)"
    by (simp add: default_rng_def)
  have m: "(0::int) \<le> 1"
    by simp
  have "\<lfloor>3591 / 4 :: real\<rfloor> = 897"
    by (simp add: floor_eq_iff)
  then show ?thesis
    using C6_bookings_truncated [OF m rng, of "str_hash secret_seed0" sample_normal
        sample_today "''SYD-MEL''"]
    by (simp add: rng str_hash_seed0_SYD_MEL sample_normal_def)
qed

text \<open>
  Claim C6, as stated, fails: for one month of SYD-MEL under seed 42 the value before
  conversion is 897.75; the simulator returns 897 where the formula with rounding
  gives 898.
\<close>

theorem C6_rounding_counterexample:
  "map_sum id bookings
     (simulate_booking_counts (str_hash secret_seed0) sample_normal 0 sample_today ''SYD-MEL'' 1
        (Some 42)) = Inr [897] \<and>
   bookings_spec (str_hash secret_seed0) sample_normal (FromSeed 42) ''SYD-MEL'' 1 = [898]"
proof -
  have rng: "default_rng 0 (Some 42) = Inr (FromSeed 42)"
    by (simp add: default_rng_def)
  have m: "(0::int) \<le> 1"
    by simp
  have f: "\<lfloor>3591 / 4 :: real\<rfloor> = 897"
    by (simp add: floor_eq_iff)
  have r: "round (3591 / 4 :: real) = 898"
    by (simp add: round_def floor_eq_iff)
  show ?thesis
    by (simp add: simulate_booking_counts_returns [OF m rng] astype_int_def bookings_base_def
        bookings_spec_def str_hash_seed0_SYD_MEL sample_normal_def f r)
qed

text \<open>
  Claim C7, amended. Each simulator seeds a generator of its own from the seed it is
  given, so under one explicit seed both draw the same standard normal variates: the
  booking noise is the price noise multiplied by \<open>40 / 6\<close> at every month index.
\<close>

theorem C7_noise_streams_proportional:
  "default_rng e1 (Some s) = default_rng e2 (Some s) \<and>
   bookings_noise g rng months = map_sum id (map (\<lambda>x. 20 / 3 * x)) (price_noise g rng months)"
  by (simp add: default_rng_def bookings_noise_def price_noise_def normal_def)

text \<open>
  Claim C7, as stated, fails: under seed 42 the booking noise of three months is the
  price noise of these months times \<open>20 / 3\<close>, a fixed scalar multiple.
\<close>

theorem C7_same_seed_same_draws:
  "price_noise sample_normal (FromSeed 42) 3 = Inr [33 / 16, 75 / 32, 21 / 8] \<and>
   bookings_noise sample_normal (FromSeed 42) 3 =
     Inr (map (\<lambda>x. 20 / 3 * x) [33 / 16, 75 / 32, 21 / 8])"
  by (simp add: price_noise_def bookings_noise_def normal_def sample_normal_def
      upt_conv_Cons)

text \<open>
  Claim C10. The seed defaults to \<open>None\<close>, and a generator made without a seed is
  seeded from the entropy source. Two such calls with the same route and months give
  the same price series exactly when the two entropy-seeded streams agree on the first
  \<open>months\<close> draws, and the booking series follows the entropy-seeded stream as well;
  only under an explicit seed are two calls bound to agree.
\<close>

theorem C10_unseeded_calls_follow_entropy:
  "default_seed = None \<and> default_rng e1 default_seed = Inr (FromEntropy e1) \<and>
   (0 \<le> months \<longrightarrow>
      (map_sum id price (simulate_price_trend h g e1 today1 route months default_seed) =
       map_sum id price (simulate_price_trend h g e2 today2 route months default_seed)) =
      (\<forall>t < nat months. g (FromEntropy e1) t = g (FromEntropy e2) t)) \<and>
   (0 \<le> months \<longrightarrow>
      map_sum id bookings (simulate_booking_counts h g e1 today1 route months default_seed) =
      Inr (map (\<lambda>t. \<lfloor>max 0 (real_of_int (bookings_base h route) +
                         300 * (1 + 0.4 * sin (2 * pi * real t / 12)) +
                         40 * g (FromEntropy e1) t)\<rfloor>) [0..<nat months])) \<and>
   map_sum id price (simulate_price_trend h g e1 today1 route months (Some s)) =
   map_sum id price (simulate_price_trend h g e2 today2 route months (Some s))"
proof -
  have rng: "default_rng e1 None = Inr (FromEntropy e1)" "default_rng e2 None = Inr (FromEntropy e2)"
    by (simp_all add: default_rng_def)
  have seeded: "map_sum id price (simulate_price_trend h g e1 today1 route months (Some s)) =
      map_sum id price (simulate_price_trend h g e2 today2 route months (Some s))"
    by (simp add: simulate_price_trend_def Let_def default_rng_explicit_seed [of e1 s e2]
        split: sum.splits)
  have unseeded: "(map_sum id price (simulate_price_trend h g e1 today1 route months None) =
       map_sum id price (simulate_price_trend h g e2 today2 route months None)) =
      (\<forall>t < nat months. g (FromEntropy e1) t = g (FromEntropy e2) t)" if m: "0 \<le> months"
    by (auto simp add: simulate_price_trend_returns [OF m rng(1)]
        simulate_price_trend_returns [OF m rng(2)])
  have counts: "map_sum id bookings (simulate_booking_counts h g e1 today1 route months None) =
      Inr (map (\<lambda>t. \<lfloor>max 0 (real_of_int (bookings_base h route) +
                         300 * (1 + 0.4 * sin (2 * pi * real t / 12)) +
                         40 * g (FromEntropy e1) t)\<rfloor>) [0..<nat months])" if m: "0 \<le> months"
    by (simp add: simulate_booking_counts_returns [OF m rng(1)] astype_int_clamped)
  show ?thesis
    using seeded unseeded counts by (simp add: default_seed_def rng)
qed

text \<open>
  Two calls without a seed, for one month of SYD-MEL, whose entropy differs: the
  price series differ, and the booking series are 884 and 924.
\<close>

theorem C10_unseeded_calls_follow_entropy_witness:
  "(0::int) \<le> 1 \<and>
   map_sum id price
     (simulate_price_trend (str_hash secret_seed0) sample_normal 0 sample_today ''SYD-MEL'' 1
        default_seed) \<noteq>
   map_sum id price
     (simulate_price_trend (str_hash secret_seed0) sample_normal 64 sample_today ''SYD-MEL'' 1
        default_seed) \<and>
   map_sum id bookings
     (simulate_booking_counts (str_hash secret_seed0) sample_normal 0 sample_today ''SYD-MEL'' 1
        default_seed) = Inr [884] \<and>
   map_sum id bookings
     (simulate_booking_counts (str_hash secret_seed0) sample_normal 64 sample_today ''SYD-MEL'' 1
        default_seed) = Inr [924]"
proof -
  have differ:
    "\<not> (\<forall>t < nat 1. sample_normal (FromEntropy 0) t = sample_normal (FromEntropy 64) t)"
    by (simp add: sample_normal_def)
  have m: "(0::int) \<le> 1"
    by simp
  from m differ have prices: "map_sum id price
     (simulate_price_trend (str_hash secret_seed0) sample_normal 0 sample_today ''SYD-MEL'' 1
        default_seed) \<noteq>
   map_sum id price
     (simulate_price_trend (str_hash secret_seed0) sample_normal 64 sample_today ''SYD-MEL'' 1
        default_seed)"
    using C10_unseeded_calls_follow_entropy [where ?e1.0 = 0 and ?e2.0 = 64 and months = 1
        and h = "str_hash secret_seed0" and g = sample_normal and ?today1.0 = sample_today
        and ?today2.0 = sample_today and route = "''SYD-MEL''" and s = 42]
    by blast
  from m have first: "map_sum id bookings
     (simulate_booking_counts (str_hash secret_seed0) sample_normal 0 sample_today ''SYD-MEL'' 1
        default_seed) = Inr [884]"
    using C10_unseeded_calls_follow_entropy [where ?e1.0 = 0 and ?e2.0 = 64 and months = 1
        and h = "str_hash secret_seed0" and g = sample_normal and ?today1.0 = sample_today
        and ?today2.0 = sample_today and route = "''SYD-MEL''" and s = 42]
    by (simp add: default_seed_def bookings_base_def str_hash_seed0_SYD_MEL sample_normal_def)
  from m have second: "map_sum id bookings
     (simulate_booking_counts (str_hash secret_seed0) sample_normal 64 sample_today ''SYD-MEL'' 1
        default_seed) = Inr [924]"
    using C10_unseeded_calls_follow_entropy [where ?e1.0 = 64 and ?e2.0 = 0 and months = 1
        and h = "str_hash secret_seed0" and g = sample_normal and ?today1.0 = sample_today
        and ?today2.0 = sample_today and route = "''SYD-MEL''" and s = 42]
    by (simp add: default_seed_def bookings_base_def str_hash_seed0_SYD_MEL sample_normal_def)
  from m prices first second show ?thesis
    by blast
qed




section \<open>Properties of the route network\<close>

lemma filter_unique_key:
  "distinct (map f xs) \<Longrightarrow> length (filter (\<lambda>x. f x = k) xs) \<le> 1"
proof (induction xs)
  case Nil
  then show ?case by simp
next
  case (Cons a xs)
  show ?case
  proof (cases "f a = k")
    case True
    with Cons.prems have "\<forall>x \<in> set xs. f x \<noteq> k"
      by (auto simp add: image_iff)
    then have "filter (\<lambda>x. f x = k) xs = []"
      by (simp add: filter_empty_conv)
    with True show ?thesis by simp
  next
    case False
    with Cons show ?thesis by simp
  qed
qed

lemma merge_left_one_row:
  assumes "distinct (map IATA right)"
  shows "merge_left key combine left right =
    map (\<lambda>l. combine l (case filter (\<lambda>a. IATA a = key l) right of [] \<Rightarrow> None | a # _ \<Rightarrow> Some a)) left"
proof -
  have one: "(case filter (\<lambda>a. IATA a = key l) right of
          [] \<Rightarrow> [combine l None]
        | ms \<Rightarrow> map (\<lambda>a. combine l (Some a)) ms) =
      [combine l (case filter (\<lambda>a. IATA a = key l) right of [] \<Rightarrow> None | a # _ \<Rightarrow> Some a)]" for l
  proof (cases "filter (\<lambda>a. IATA a = key l) right")
    case Nil
    then show ?thesis by simp
  next
    case (Cons a ms)
    with filter_unique_key [OF assms, of "key l"] have "ms = []"
      by simp
    with Cons show ?thesis by simp
  qed
  show ?thesis
    unfolding merge_left_def one by (induction left) simp_all
qed

lemma truncate_add_source: "route.truncate (add_source r m) = r"
  by (simp add: add_source_def route.defs route_src.defs)

lemma truncate_add_dest: "route.truncate (add_dest r m) = route.truncate r"
  by (simp add: add_dest_def route.defs route_src.defs route_src_dest.defs)

lemma truncate_add_route_id: "route.truncate (add_route_id r) = route.truncate r"
  by (simp add: add_route_id_def route.defs route_src.defs route_src_dest.defs enriched_route.defs)

text \<open>
  Claim C5. When the IATA codes of the filtered airports are pairwise distinct, the
  join returns exactly one row for every filtered route row, in the same order and
  with the route's own columns unchanged: no row is duplicated and none is dropped.
\<close>

theorem C5_join_keeps_row_count:
  assumes "distinct (map IATA (filter_airports airports))"
  shows "length (prepare_routes airports routes) = length (filter_routes routes) \<and>
    map route.truncate (prepare_routes airports routes) = filter_routes routes"
proof -
  have rows: "map route.truncate (prepare_routes airports routes) = filter_routes routes"
    by (simp add: prepare_routes_def Let_def merge_left_one_row [OF assms] o_def
        truncate_add_route_id truncate_add_dest truncate_add_source)
  have "length (prepare_routes airports routes) =
      length (map route.truncate (prepare_routes airports routes))"
    by simp
  also have "\<dots> = length (filter_routes routes)"
    by (simp only: rows)
  finally show ?thesis
    using rows by simp
qed

lemma filter_sample_airports:
  "filter_airports sample_airports =
     [sample_airport ''SYD'' ''Sydney'' ''Australia'',
      sample_airport ''MEL'' ''Melbourne'' ''Australia'']"
  by (simp add: filter_airports_def sample_airports_def sample_airport_def sentinel_def)

lemma filter_sample_routes:
  "filter_routes sample_routes = [sample_route ''SYD'' ''MEL'', sample_route ''SYD'' ''BNE'']"
  by (simp add: filter_routes_def sample_routes_def sample_route_def sentinel_def)

text \<open>
  The claim on the sample tables: of three routes one has the null marker as its
  source and is filtered out; the remaining two come out once each, the second with no
  matching destination airport.
\<close>

theorem C5_join_keeps_row_count_witness:
  "distinct (map IATA (filter_airports sample_airports)) \<and>
   length (prepare_routes sample_airports sample_routes) = 2 \<and>
   map route.truncate (prepare_routes sample_airports sample_routes) =
     [sample_route ''SYD'' ''MEL'', sample_route ''SYD'' ''BNE'']"
proof -
  have d: "distinct (map IATA (filter_airports sample_airports))"
    by (simp add: filter_sample_airports sample_airport_def)
  show ?thesis
    using C5_join_keeps_row_count [OF d, of sample_routes] d
    by (simp add: filter_sample_routes)
qed

subsection \<open>The ranking\<close>

lemma argsort_ok_positions:
  assumes "argsort_ok argsort"
  shows "set (argsort ks) = {0..<length ks}"
proof -
  have "mset (argsort ks) = mset [0..<length ks]"
    using assms by (simp add: argsort_ok_def)
  then have "set (argsort ks) = set [0..<length ks]"
    by (rule mset_eq_setD)
  then show ?thesis by simp
qed

lemma rev_upt_nth: "i < n \<Longrightarrow> rev [0..<n] ! i = n - Suc i"
  by (simp add: rev_nth)

lemma map_rev_index: "map (\<lambda>i. xs ! (length xs - Suc i)) [0..<length xs] = rev xs"
  by (rule nth_equalityI) (simp_all add: rev_nth)

lemma sort_values_desc_alt:
  assumes "argsort_ok argsort"
  shows "sort_values_desc argsort rows =
    rev (map (\<lambda>i. rows ! (length rows - Suc i)) (argsort (rev (map snd rows))))"
proof -
  have "\<forall>i \<in> set (argsort (rev (map snd rows))). i < length rows"
    using argsort_ok_positions [OF assms, of "rev (map snd rows)"] by simp
  then have "map (\<lambda>i. rows ! (rev [0..<length rows] ! i)) (argsort (rev (map snd rows))) =
      map (\<lambda>i. rows ! (length rows - Suc i)) (argsort (rev (map snd rows)))"
    by (simp add: rev_upt_nth)
  then show ?thesis
    by (simp add: sort_values_desc_def Let_def rev_map o_def)
qed

lemma mset_sort_values_desc:
  assumes "argsort_ok argsort"
  shows "mset (sort_values_desc argsort rows) = mset rows"
proof -
  let ?p = "argsort (rev (map snd rows))"
  let ?f = "\<lambda>i. rows ! (length rows - Suc i)"
  have p: "mset ?p = mset [0..<length rows]"
    using assms by (simp add: argsort_ok_def)
  have "mset (sort_values_desc argsort rows) = image_mset ?f (mset ?p)"
    by (simp add: sort_values_desc_alt [OF assms])
  also have "\<dots> = mset (map ?f [0..<length rows])"
    by (simp only: p mset_map)
  also have "\<dots> = mset rows"
    by (simp only: map_rev_index mset_rev)
  finally show ?thesis .
qed

lemma counts_descending_sort_values_desc:
  assumes "argsort_ok argsort"
  shows "counts_descending (sort_values_desc argsort rows)"
proof -
  let ?items = "rev (map snd rows)"
  let ?p = "argsort ?items"
  have asc: "sorted (map (\<lambda>i. ?items ! i) ?p)"
    using assms by (simp add: argsort_ok_def)
  have pos: "\<forall>i \<in> set ?p. i < length rows"
    using argsort_ok_positions [OF assms, of ?items] by simp
  have "snd (rows ! (length rows - Suc i)) = ?items ! i" if "i < length rows" for i
  proof -
    have "length rows - Suc i < length rows"
      using that by simp
    then show ?thesis
      using that by (simp add: rev_nth)
  qed
  with pos have eq: "map (\<lambda>i. snd (rows ! (length rows - Suc i))) ?p = map (\<lambda>i. ?items ! i) ?p"
    by simp
  have "sorted (map (\<lambda>i. snd (rows ! (length rows - Suc i))) ?p)"
    unfolding eq by (rule asc)
  then have "sorted_wrt (\<lambda>x y. y \<le> x) (rev (map (\<lambda>i. snd (rows ! (length rows - Suc i))) ?p))"
    by (simp add: sorted_wrt_rev)
  then show ?thesis
    by (simp add: counts_descending_def sort_values_desc_alt [OF assms] sorted_wrt_map rev_map o_def)
qed

lemma argsort_ok_stable_argsort: "argsort_ok stable_argsort"
  unfolding argsort_ok_def
proof (intro allI conjI)
  fix ks :: "nat list"
  let ?zs = "zip ks [0..<length ks]"
  have positions: "map snd ?zs = [0..<length ks]"
    by (simp add: map_snd_zip)
  have "mset (map snd (sort_key fst ?zs)) = mset (map snd ?zs)"
    by (simp only: mset_map mset_sort)
  then show "mset (stable_argsort ks) = mset [0..<length ks]"
    unfolding stable_argsort_def positions .
  have "\<forall>z \<in> set (sort_key fst ?zs). ks ! snd z = fst z"
    by (auto simp add: set_zip)
  then have keys: "map (\<lambda>i. ks ! i) (map snd (sort_key fst ?zs)) = map fst (sort_key fst ?zs)"
    by simp
  show "sorted (map (\<lambda>i. ks ! i) (stable_argsort ks))"
    unfolding stable_argsort_def keys by (rule sorted_sort_key)
qed

lemma group_keys_sorted: "sorted (group_keys rows) \<and> distinct (group_keys rows)"
  by (simp add: group_keys_def)

lemma map_fst_groupby_size: "map fst (groupby_size rows) = group_keys rows"
  by (simp add: groupby_size_def o_def)

lemma groupby_size_row_order:
  assumes "mset rows1 = mset rows2"
  shows "groupby_size rows1 = groupby_size rows2"
proof -
  have ids: "mset (List.map_filter route_id rows1) = mset (List.map_filter route_id rows2)"
    using assms by (simp add: map_filter_def)
  then have "set (List.map_filter route_id rows1) = set (List.map_filter route_id rows2)"
    by (rule mset_eq_setD)
  then have "mset (sort (remdups (List.map_filter route_id rows2))) =
      mset (remdups (List.map_filter route_id rows1))"
    by (simp add: set_eq_iff_mset_remdups_eq)
  then have keys: "group_keys rows1 = group_keys rows2"
    unfolding group_keys_def by (rule properties_for_sort) simp
  have "length (filter P rows1) = length (filter P rows2)" for P
  proof -
    have "size (filter_mset P (mset rows1)) = size (filter_mset P (mset rows2))"
      using assms by simp
    then show ?thesis
      by (simp only: mset_filter [symmetric] size_mset)
  qed
  then show ?thesis
    by (simp add: groupby_size_def keys)
qed

lemma filter_country_row_order:
  "mset rows1 = mset rows2 \<Longrightarrow> mset (filter_country cf rows1) = mset (filter_country cf rows2)"
  by (simp add: filter_country_def)

lemma route_id_add_route_id: "route_id (add_route_id r) = join_codes (SourceIATA r) (DestIATA r)"
  by (simp add: add_route_id_def route_src_dest.defs enriched_route.defs)

lemma source_dest_add_dest:
  "SourceIATA (add_dest r m) = SourceIATA r \<and> DestIATA (add_dest r m) = DestIATA r"
  by (simp add: add_dest_def route_src.defs route_src_dest.defs)

lemma source_dest_add_source:
  "SourceIATA (add_source r m) = SourceIATA r \<and> DestIATA (add_source r m) = DestIATA r"
  by (simp add: add_source_def route.defs route_src.defs)

lemma merge_left_no_airports: "merge_left key combine left [] = map (\<lambda>l. combine l None) left"
  unfolding merge_left_def by (induction left) simp_all

lemma route_ids_without_airports:
  "map route_id (prepare_routes [] routes) =
     map (\<lambda>r. join_codes (SourceIATA r) (DestIATA r)) (filter_routes routes)"
  by (simp add: prepare_routes_def filter_airports_def merge_left_no_airports o_def
      route_id_add_route_id source_dest_add_dest source_dest_add_source)

lemma group_keys_route_ids:
  "group_keys rows = sort (remdups (List.map_filter id (map route_id rows)))"
  by (simp add: group_keys_def map_filter_def filter_map o_def)

lemma group_size_route_ids:
  "length (filter (\<lambda>r. route_id r = Some k) rows) =
     length (filter (\<lambda>i. i = Some k) (map route_id rows))"
  by (simp add: filter_map o_def)

lemma first_seen_route_ids:
  "first_seen rows k = length (takeWhile (\<lambda>i. i \<noteq> Some k) (map route_id rows))"
  by (simp add: first_seen_def takeWhile_map o_def)

lemma sample_table_route_ids:
  "map route_id (prepare_routes [] [sample_route ''SYD'' ''MEL'', sample_route ''LHR'' ''CDG'']) =
     [Some ''SYD-MEL'', Some ''LHR-CDG'']"
  by (simp add: route_ids_without_airports filter_routes_def sample_route_def sentinel_def
      join_codes_def)

text \<open>
  Claim C4, amended. For every table, every country filter and every argsort that
  returns the positions in ascending order of their keys, the ranking is sorted
  descending by count and lists exactly the records of the grouping. The grouping
  lists each route identifier once, in ascending order of the identifiers, and the
  ranking is the same for every reordering of the table's rows: the order of records
  with equal counts does not follow the order in which the routes are first seen.
\<close>

theorem C4_ranking_descending:
  assumes "argsort_ok argsort"
  shows "counts_descending (route_counts argsort routes country_filter) \<and>
    mset (route_counts argsort routes country_filter) =
      mset (groupby_size (filter_country country_filter routes)) \<and>
    sorted (map fst (groupby_size (filter_country country_filter routes))) \<and>
    distinct (map fst (groupby_size (filter_country country_filter routes))) \<and>
    (\<forall>routes'. mset routes' = mset routes \<longrightarrow>
       route_counts argsort routes' country_filter = route_counts argsort routes country_filter)"
proof -
  have order: "\<forall>routes'. mset routes' = mset routes \<longrightarrow>
      route_counts argsort routes' country_filter = route_counts argsort routes country_filter"
  proof (intro allI impI)
    fix routes' :: "enriched_route list"
    assume "mset routes' = mset routes"
    then have "groupby_size (filter_country country_filter routes') =
        groupby_size (filter_country country_filter routes)"
      by (intro groupby_size_row_order filter_country_row_order)
    then show "route_counts argsort routes' country_filter =
        route_counts argsort routes country_filter"
      by (simp only: route_counts_def)
  qed
  have desc: "counts_descending (route_counts argsort routes country_filter)"
    by (simp add: route_counts_def counts_descending_sort_values_desc [OF assms])
  have perm: "mset (route_counts argsort routes country_filter) =
      mset (groupby_size (filter_country country_filter routes))"
    by (simp add: route_counts_def mset_sort_values_desc [OF assms])
  have keys: "sorted (map fst (groupby_size (filter_country country_filter routes)))"
    "distinct (map fst (groupby_size (filter_country country_filter routes)))"
    using group_keys_sorted [of "filter_country country_filter routes"]
    by (simp_all add: map_fst_groupby_size)
  from desc perm keys order show ?thesis
    by blast
qed

text \<open>
  The amended claim with an argsort that keeps equal keys in order, on a table of two
  routes and on the same table with its rows reversed.
\<close>

theorem C4_ranking_descending_witness:
  "argsort_ok stable_argsort \<and>
   counts_descending (route_counts stable_argsort
     (prepare_routes [] [sample_route ''SYD'' ''MEL'', sample_route ''LHR'' ''CDG'']) ''All'') \<and>
   route_counts stable_argsort
     (rev (prepare_routes [] [sample_route ''SYD'' ''MEL'', sample_route ''LHR'' ''CDG''])) ''All'' =
   route_counts stable_argsort
     (prepare_routes [] [sample_route ''SYD'' ''MEL'', sample_route ''LHR'' ''CDG'']) ''All''"
proof -
  let ?t = "prepare_routes [] [sample_route ''SYD'' ''MEL'', sample_route ''LHR'' ''CDG'']"
  have "mset (rev ?t) = mset ?t"
    by simp
  with argsort_ok_stable_argsort show ?thesis
    using C4_ranking_descending [OF argsort_ok_stable_argsort, of ?t "''All''"]
    by blast
qed

text \<open>
  Claim C4, as stated, fails: in a table whose rows are SYD-MEL and then LHR-CDG, both
  routes have the count 1 and the ranking lists LHR-CDG first, against the order in
  which they are first seen.
\<close>

theorem C4_first_seen_counterexample:
  "route_counts stable_argsort
     (prepare_routes [] [sample_route ''SYD'' ''MEL'', sample_route ''LHR'' ''CDG'']) ''All'' =
     [(''LHR-CDG'', 1), (''SYD-MEL'', 1)] \<and>
   \<not> ties_first_seen
     (prepare_routes [] [sample_route ''SYD'' ''MEL'', sample_route ''LHR'' ''CDG''])
     [(''LHR-CDG'', 1), (''SYD-MEL'', 1)]"
proof -
  let ?t = "prepare_routes [] [sample_route ''SYD'' ''MEL'', sample_route ''LHR'' ''CDG'']"
  have groups: "groupby_size ?t = [(''LHR-CDG'', 1), (''SYD-MEL'', 1)]"
    by (simp add: groupby_size_def group_keys_route_ids group_size_route_ids
        sample_table_route_ids map_filter_simps)
  have "stable_argsort [1, 1] = [0, 1]"
    by (simp add: stable_argsort_def upt_conv_Cons numeral_2_eq_2)
  then have ranked: "route_counts stable_argsort ?t ''All'' = [(''LHR-CDG'', 1), (''SYD-MEL'', 1)]"
    by (simp add: route_counts_def filter_country_def groups sort_values_desc_def
        upt_conv_Cons numeral_2_eq_2)
  have "\<not> ties_first_seen ?t [(''LHR-CDG'', 1), (''SYD-MEL'', 1)]"
    by (simp add: ties_first_seen_def first_seen_route_ids sample_table_route_ids)
  with ranked show ?thesis
    by simp
qed

section \<open>Properties of the live flight gateway\<close>

lemma show_flights_error_dict: "show_flights (error_dict msg) = Inr (ErrorMessage (JStr msg))"
  by (simp add: show_flights_def error_dict_def)

lemma empty_result_error_dict: "\<not> empty_result (error_dict msg)"
  by (simp add: empty_result_def error_dict_def)

lemma gateway_failed_value:
  "gateway_failed k http origin destination limit \<Longrightarrow>
   \<exists>msg. fst (get_live_flights k http origin destination limit) = error_dict msg"
  by (auto simp add: gateway_failed_def get_live_flights_def Let_def
      split: if_splits http_outcome.splits)

text \<open>
  Claim C9. With a missing key (absent or empty) the gateway returns its failure
  value and sends no request. Whenever a call fails, the value it returns is a
  dictionary with the single key \<open>error\<close>; the page shows it as an error message,
  and it is never equal to a result whose data array is empty.
\<close>

theorem C9_gateway_failure_is_distinct:
  "(key_missing k \<longrightarrow>
      get_live_flights k http origin destination limit =
        (error_dict ''AVIATIONSTACK_KEY missing. Add it to .env or Streamlit Secrets.'', [])) \<and>
   (gateway_failed k http origin destination limit \<longrightarrow>
      (\<exists>msg. fst (get_live_flights k http origin destination limit) = error_dict msg \<and>
         show_flights (fst (get_live_flights k http origin destination limit)) =
           Inr (ErrorMessage (JStr msg))) \<and>
      \<not> empty_result (fst (get_live_flights k http origin destination limit))) \<and>
   (empty_result j \<longrightarrow>
      (\<forall>msg. j \<noteq> error_dict msg) \<and>
      (\<forall>k' http'. gateway_failed k' http' origin destination limit \<longrightarrow>
         fst (get_live_flights k' http' origin destination limit) \<noteq> j))"
proof -
  have missing: "key_missing k \<longrightarrow>
      get_live_flights k http origin destination limit =
        (error_dict ''AVIATIONSTACK_KEY missing. Add it to .env or Streamlit Secrets.'', [])"
    by (simp add: get_live_flights_def)
  have failed: "gateway_failed k http origin destination limit \<longrightarrow>
      (\<exists>msg. fst (get_live_flights k http origin destination limit) = error_dict msg \<and>
         show_flights (fst (get_live_flights k http origin destination limit)) =
           Inr (ErrorMessage (JStr msg))) \<and>
      \<not> empty_result (fst (get_live_flights k http origin destination limit))"
    using gateway_failed_value [of k http origin destination limit]
    by (auto simp add: show_flights_error_dict empty_result_error_dict)
  have apart: "empty_result j \<longrightarrow>
      (\<forall>msg. j \<noteq> error_dict msg) \<and>
      (\<forall>k' http'. gateway_failed k' http' origin destination limit \<longrightarrow>
         fst (get_live_flights k' http' origin destination limit) \<noteq> j)"
    using gateway_failed_value empty_result_error_dict by metis
  from missing failed apart show ?thesis
    by blast
qed

text \<open>
  The claim with no key set, against a server that would answer with an empty data
  array: the gateway's value is the error dictionary; with a key set the same server's
  answer is shown as the no-flights message.
\<close>

theorem C9_gateway_failure_is_distinct_witness:
  "key_missing None \<and> gateway_failed None (\<lambda>r. Body (JObj [(''data'', JArr [])])) ''SYD'' ''MEL'' ''10'' \<and>
   empty_result (JObj [(''data'', JArr [])]) \<and>
   get_live_flights None (\<lambda>r. Body (JObj [(''data'', JArr [])])) ''SYD'' ''MEL'' ''10'' =
     (error_dict ''AVIATIONSTACK_KEY missing. Add it to .env or Streamlit Secrets.'', []) \<and>
   fst (get_live_flights None (\<lambda>r. Body (JObj [(''data'', JArr [])])) ''SYD'' ''MEL'' ''10'') \<noteq>
     JObj [(''data'', JArr [])] \<and>
   fst (get_live_flights (Some ''secret'') (\<lambda>r. Body (JObj [(''data'', JArr [])])) ''SYD'' ''MEL'' ''10'') =
     JObj [(''data'', JArr [])] \<and>
   show_flights (JObj [(''data'', JArr [])]) = Inr NoFlightsInfo"
proof -
  have km: "key_missing None"
    by (simp add: key_missing_def)
  have gf: "gateway_failed None (\<lambda>r. Body (JObj [(''data'', JArr [])])) ''SYD'' ''MEL'' ''10''"
    by (simp add: gateway_failed_def km)
  have er: "empty_result (JObj [(''data'', JArr [])])"
    by (simp add: empty_result_def)
  have ok: "fst (get_live_flights (Some ''secret'') (\<lambda>r. Body (JObj [(''data'', JArr [])]))
      ''SYD'' ''MEL'' ''10'') = JObj [(''data'', JArr [])]"
    by (simp add: get_live_flights_def key_missing_def)
  have sh: "show_flights (JObj [(''data'', JArr [])]) = Inr NoFlightsInfo"
    by (simp add: show_flights_def)
  from km gf er ok sh show ?thesis
    using C9_gateway_failure_is_distinct [of None "\<lambda>r. Body (JObj [(''data'', JArr [])])"
        "''SYD''" "''MEL''" "''10''" "JObj [(''data'', JArr [])]"]
    by blast
qed

end
